theory Spec2Isabelle
  imports Main "HOL-Library.Sublist"
begin

section \<open>Strings\<close>

text \<open>
  JavaScript strings are modelled as \<^typ>\<open>string\<close>. The string methods the program calls
  are \<open>startsWith\<close>, \<open>endsWith\<close>, \<open>includes\<close>, \<open>split\<close> on a one-character separator and
  \<open>replace\<close> of every backslash.
\<close>

definition startsWith :: "string \<Rightarrow> string \<Rightarrow> bool" where
  "startsWith s p = prefix p s"

definition endsWith :: "string \<Rightarrow> string \<Rightarrow> bool" where
  "endsWith s p = suffix p s"

definition includesStr :: "string \<Rightarrow> string \<Rightarrow> bool" where
  "includesStr s p = sublist p s"

text \<open>\<open>s.split(c)\<close>: the pieces between the occurrences of \<open>c\<close>; never an empty array.\<close>

fun split :: "string \<Rightarrow> char \<Rightarrow> string list" where
  "split [] c = [[]]"
| "split (x # xs) c =
     (if x = c then [] # split xs c
      else (case split xs c of [] \<Rightarrow> [[x]] | p # ps \<Rightarrow> (x # p) # ps))"

text \<open>\<open>parts.join('/')\<close>.\<close>

fun join :: "string list \<Rightarrow> string \<Rightarrow> string" where
  "join [] sep = []"
| "join [p] sep = p"
| "join (p # q # ps) sep = p @ sep @ join (q # ps) sep"

text \<open>\<open>s.replace(/\\/g, '/')\<close>: every backslash (character 92) becomes a slash.\<close>

definition replaceBackslashes :: "string \<Rightarrow> string" where
  "replaceBackslashes s = map (\<lambda>c. if c = char_of (92 :: nat) then CHR ''/'' else c) s"

text \<open>
  The regular expressions of the classifier carry the flag \<open>i\<close>. Their patterns consist of
  lower-case ASCII letters, dots and a hyphen, so a name matches ignoring case exactly when
  its ASCII lower-casing matches.
\<close>

definition toLowerChar :: "char \<Rightarrow> char" where
  "toLowerChar c =
     (case map_of (zip ''ABCDEFGHIJKLMNOPQRSTUVWXYZ'' ''abcdefghijklmnopqrstuvwxyz'') c of
        None \<Rightarrow> c | Some l \<Rightarrow> l)"

definition toLowerCase :: "string \<Rightarrow> string" where
  "toLowerCase s = map toLowerChar s"

definition showBool :: "bool \<Rightarrow> string" where
  "showBool b = (if b then ''true'' else ''false'')"

section \<open>The path module\<close>

text \<open>
  The program calls four functions of the platform's \<open>path\<close> module. The module is not part
  of the repository, so the model takes it as a parameter; the theorems below hold for every
  implementation of it.
\<close>

record path_module =
  relative :: "string \<Rightarrow> string \<Rightarrow> string"
  basename :: "string \<Rightarrow> string"
  dirname :: "string \<Rightarrow> string"
  isAbsolute :: "string \<Rightarrow> bool"

text \<open>
  For concrete inputs, \<open>posix cwd\<close> is the POSIX flavour of the module in a process whose
  working directory is \<open>cwd\<close>. \<open>relative\<close> resolves both paths to normalized absolute paths,
  drops their common leading segments, and climbs with one \<open>..\<close> for each segment left in the
  first.
\<close>

fun normalizeSegments :: "string list \<Rightarrow> string list \<Rightarrow> string list" where
  "normalizeSegments acc [] = rev acc"
| "normalizeSegments acc (s # ss) =
     (if s = [] \<or> s = ''.'' then normalizeSegments acc ss
      else if s = ''..'' then normalizeSegments (tl acc) ss
      else normalizeSegments (s # acc) ss)"

definition posix_resolve :: "string \<Rightarrow> string \<Rightarrow> string list" where
  "posix_resolve cwd p =
     normalizeSegments []
       (split (if startsWith p ''/'' then p else cwd @ ''/'' @ p) (CHR ''/''))"

fun dropCommon :: "string list \<Rightarrow> string list \<Rightarrow> string list \<times> string list" where
  "dropCommon (a # as) (b # bs) = (if a = b then dropCommon as bs else (a # as, b # bs))"
| "dropCommon as bs = (as, bs)"

definition posix_relative :: "string \<Rightarrow> string \<Rightarrow> string \<Rightarrow> string" where
  "posix_relative cwd from to =
     (case dropCommon (posix_resolve cwd from) (posix_resolve cwd to) of
        (fs, ts) \<Rightarrow> join (replicate (length fs) ''..'' @ ts) ''/'')"

definition posix_basename :: "string \<Rightarrow> string" where
  "posix_basename p =
     rev (takeWhile (\<lambda>c. c \<noteq> CHR ''/'') (dropWhile (\<lambda>c. c = CHR ''/'') (rev p)))"

definition posix_dirname :: "string \<Rightarrow> string" where
  "posix_dirname p =
     (case p of
        [] \<Rightarrow> ''.''
      | c # body \<Rightarrow>
          (case dropWhile (\<lambda>c. c \<noteq> CHR ''/'') (dropWhile (\<lambda>c. c = CHR ''/'') (rev body)) of
             [] \<Rightarrow> (if c = CHR ''/'' then ''/'' else ''.'')
           | _ # r \<Rightarrow> (if c = CHR ''/'' \<and> r = [] then ''//'' else c # rev r)))"

definition posix :: "string \<Rightarrow> path_module" where
  "posix cwd =
     \<lparr> relative = posix_relative cwd,
       basename = posix_basename,
       dirname = posix_dirname,
       isAbsolute = (\<lambda>p. startsWith p ''/'') \<rparr>"

section \<open>Types (types.ts)\<close>

text \<open>
  \<open>dependencies\<close> is the optional \<open>Record<string, string>\<close> of the manifest, as the list of
  its entries in the order \<open>Object.keys\<close> enumerates them.
\<close>

record PackageJson =
  dependencies :: "(string \<times> string) list option"

record ProjectConfig =
  packageJson :: PackageJson
  rootDir :: string
  sourceDirs :: "string list"
  testDirs :: "string list"
  buildDirs :: "string list"

record FileClassification =
  isProduction :: bool
  isTest :: bool
  isBuild :: bool
  isConfig :: bool
  reason :: string

record ImportInfo =
  packageName :: string
  isTypeOnly :: bool
  filePath :: string
  line :: nat
  column :: nat

text \<open>
  \<open>PackageUsage\<close> has fields \<open>packageName\<close>, \<open>imports\<close> and \<open>reason\<close> too; here they are
  \<open>usagePackageName\<close>, \<open>usageImports\<close> and \<open>usageReason\<close>: record fields share one name
  space, and \<open>imports\<close> is a keyword.
\<close>

record PackageUsage =
  usagePackageName :: string
  usageImports :: "ImportInfo list"
  usedInProduction :: bool
  usedInDev :: bool
  onlyTypeImports :: bool
  canMoveToDevDependencies :: bool
  usageReason :: string

record AnalysisResult =
  packagesToMove :: "PackageUsage list"
  packagesToKeep :: "PackageUsage list"
  totalDependencies :: nat
  canMoveCount :: nat

section \<open>File classification (file-classifier.ts)\<close>

definition isInSourceDir :: "string \<Rightarrow> ProjectConfig \<Rightarrow> bool" where
  "isInSourceDir normalizedPath config =
     (if ''.'' \<in> set (sourceDirs config) \<and>
         (let pathParts = split normalizedPath (CHR ''/'')
          in length pathParts = 1 \<or> pathParts ! 0 = ''.'')
      then True
      else list_ex
             (\<lambda>sourceDir.
                if sourceDir = ''.'' then True
                else startsWith normalizedPath (sourceDir @ ''/'') \<or>
                     startsWith normalizedPath (''./'' @ sourceDir @ ''/''))
             (sourceDirs config))"

text \<open>\<open>/\.(test|spec)\.(ts|tsx|js|jsx)$/i\<close> and the same with a trailing \<open>\.map\<close>.\<close>

definition isTestFileName :: "string \<Rightarrow> bool" where
  "isTestFileName fileName =
     (let name = toLowerCase fileName
      in list_ex (\<lambda>t. list_ex (\<lambda>e. endsWith name (''.'' @ t @ ''.'' @ e))
                         [''ts'', ''tsx'', ''js'', ''jsx''])
           [''test'', ''spec''] \<or>
         list_ex (\<lambda>t. list_ex (\<lambda>e. endsWith name (''.'' @ t @ ''.'' @ e @ ''.map''))
                         [''ts'', ''tsx'', ''js'', ''jsx''])
           [''test'', ''spec''])"

text \<open>
  The three tests of \<open>isConfigFile\<close>: the anchored tool-name pattern (a tool name, a dot, an
  optional \<open>config.\<close>, an extension), the dot-file prefix pattern, and the two exact names.
\<close>

definition isConfigFileName :: "string \<Rightarrow> bool" where
  "isConfigFileName fileName =
     (let name = toLowerCase fileName
      in list_ex (\<lambda>tool. list_ex (\<lambda>mid. list_ex (\<lambda>ext. name = tool @ ''.'' @ mid @ ext)
                                      [''js'', ''ts'', ''json'', ''mjs'', ''cjs''])
                            ['''', ''config.''])
           [''jest'', ''vitest'', ''vite'', ''webpack'', ''rollup'', ''esbuild'', ''tsup'',
            ''tsx'', ''ts-node'', ''babel'', ''eslint'', ''prettier'', ''.prettierrc'',
            ''.eslintrc''] \<or>
         list_ex (\<lambda>rc. startsWith name (''.'' @ rc))
           [''eslintrc'', ''prettierrc'', ''babelrc'', ''nycrc''] \<or>
         fileName = ''tsconfig.json'' \<or>
         fileName = ''package.json'')"

definition classifyFile :: "path_module \<Rightarrow> string \<Rightarrow> ProjectConfig \<Rightarrow> FileClassification" where
  "classifyFile path file config =
     (let relativePath = relative path (rootDir config) file;
          normalizedPath = replaceBackslashes relativePath;
          fileName = basename path file;
          dirName = dirname path normalizedPath;
          isInBuildDir =
            list_ex (\<lambda>buildDir.
                       startsWith normalizedPath (buildDir @ ''/'') \<or>
                       startsWith normalizedPath (''./'' @ buildDir @ ''/''))
              (buildDirs config)
      in if isInBuildDir then
           \<lparr> isProduction = False, isTest = False, isBuild = True, isConfig = False,
             reason = ''File is in build directory'' \<rparr>
         else
           let isInTestDir =
                 list_ex (\<lambda>testDir.
                            includesStr normalizedPath (''/'' @ testDir @ ''/'') \<or>
                            startsWith normalizedPath (testDir @ ''/'') \<or>
                            dirName = testDir)
                   (testDirs config);
               isTestFile = isTestFileName fileName
           in if isInTestDir \<or> isTestFile then
                \<lparr> isProduction = False, isTest = True, isBuild = False, isConfig = False,
                  reason = (if isInTestDir then ''File is in test directory''
                            else ''File matches test pattern'') \<rparr>
              else
                let isConfigFile = isConfigFileName fileName
                in if isConfigFile \<and> \<not> isInSourceDir normalizedPath config then
                     \<lparr> isProduction = False, isTest = False, isBuild = False, isConfig = True,
                       reason = ''File is a configuration file'' \<rparr>
                   else
                     let isInSource = isInSourceDir normalizedPath config;
                         isTypeDefinition = endsWith fileName ''.d.ts'';
                         isProduction =
                           (isInSource \<and> \<not> isTestFile \<and> \<not> isConfigFile \<and> \<not> isInBuildDir)
                     in \<lparr> isProduction = isProduction,
                          isTest = (isInTestDir \<or> isTestFile),
                          isBuild = isInBuildDir,
                          isConfig = (isConfigFile \<and> \<not> isInSource),
                          reason =
                            (if isProduction then ''File is in source directory''
                             else if isTypeDefinition then ''File is a type definition''
                             else ''File classification: source='' @ showBool isInSource @
                                  '', test='' @ showBool (isTestFile \<or> isInTestDir) @
                                  '', config='' @ showBool isConfigFile) \<rparr>)"

section \<open>Import scanning (import-scanner.ts)\<close>

text \<open>\<open>isExternalPackage\<close>: the source starts neither with a dot nor with a slash, and is
  not an absolute path.\<close>

definition isExternalPackage :: "path_module \<Rightarrow> string \<Rightarrow> bool" where
  "isExternalPackage path source =
     (\<not> startsWith source ''.'' \<and> \<not> startsWith source ''/'' \<and> \<not> isAbsolute path source)"

text \<open>
  \<open>extractPackageName\<close>. \<open>split\<close> never returns an empty array, so \<open>parts[0]\<close> is always
  there; \<open>parts[1]\<close> is read only when there are two parts.
\<close>

definition extractPackageName :: "string \<Rightarrow> string" where
  "extractPackageName source =
     (let cleanSource = split (split source (CHR ''?'') ! 0) (CHR ''#'') ! 0;
          parts = split cleanSource (CHR ''/'')
      in if startsWith cleanSource ''@'' \<and> length parts \<ge> 2
         then parts ! 0 @ ''/'' @ parts ! 1
         else parts ! 0)"

text \<open>
  The part of a syntax-tree node the scanner reads from an import declaration: the
  declaration's \<open>importKind\<close>, its \<open>specifiers\<close>, the value of its \<open>source\<close> and the start of
  its \<open>loc\<close>. A property that is absent (\<open>undefined\<close>) is \<open>None\<close>. Of a specifier the
  scanner reads \<open>importKind\<close> and \<open>imported.type\<close>.
\<close>

record ImportClause =
  specImportKind :: "string option"
  importedType :: "string option"

record ImportDeclaration =
  importKind :: "string option"
  specifiers :: "ImportClause list option"
  sourceValue :: "string option"
  locStart :: "(nat \<times> nat) option"

definition hasTypeOnlySpecifiers :: "ImportDeclaration \<Rightarrow> bool" where
  "hasTypeOnlySpecifiers node =
     (case specifiers node of
        None \<Rightarrow> False
      | Some specs \<Rightarrow>
          if length specs = 0 then False
          else list_all
                 (\<lambda>spec.
                    if specImportKind spec = Some ''type'' then True
                    else if importedType spec = Some ''Identifier'' \<and>
                            specImportKind spec = Some ''type'' then True
                    else False)
                 specs)"

text \<open>
  The first case of the callback of \<open>extractImportsFromFile\<close>, for a node whose \<open>type\<close> is
  \<open>ImportDeclaration\<close>: the record pushed, or \<open>None\<close> when nothing is pushed. An empty
  source string is falsy.
\<close>

definition visitImportDeclaration ::
  "path_module \<Rightarrow> string \<Rightarrow> ImportDeclaration \<Rightarrow> ImportInfo option" where
  "visitImportDeclaration path file node =
     (case sourceValue node of
        None \<Rightarrow> None
      | Some source \<Rightarrow>
          if source \<noteq> [] \<and> isExternalPackage path source then
            Some \<lparr> packageName = extractPackageName source,
                   isTypeOnly = (importKind node = Some ''type'' \<or> hasTypeOnlySpecifiers node),
                   filePath = file,
                   line = (case locStart node of None \<Rightarrow> 0 | Some (l, c) \<Rightarrow> l),
                   column = (case locStart node of None \<Rightarrow> 0 | Some (l, c) \<Rightarrow> c) \<rparr>
          else None)"

section \<open>Dependency analysis (analyzer.ts)\<close>

text \<open>The five local flags of the loop of \<open>analyzePackageUsage\<close>.\<close>

record usage_flags =
  flagUsedInProduction :: bool
  flagUsedInDev :: bool
  hasRuntimeInProduction :: bool
  hasTypeOnlyInProduction :: bool
  allImportsAreTypeOnly :: bool

definition initialFlags :: usage_flags where
  "initialFlags =
     \<lparr> flagUsedInProduction = False, flagUsedInDev = False, hasRuntimeInProduction = False,
       hasTypeOnlyInProduction = False, allImportsAreTypeOnly = True \<rparr>"

text \<open>One iteration of the loop over the imports of a package.\<close>

definition classifyImport ::
  "path_module \<Rightarrow> ProjectConfig \<Rightarrow> usage_flags \<Rightarrow> ImportInfo \<Rightarrow> usage_flags" where
  "classifyImport path config st imp =
     (let fileClassification = classifyFile path (filePath imp) config
      in if isProduction fileClassification then
           (if isTypeOnly imp
            then st\<lparr> flagUsedInProduction := True, hasTypeOnlyInProduction := True \<rparr>
            else st\<lparr> flagUsedInProduction := True, hasRuntimeInProduction := True,
                     allImportsAreTypeOnly := False \<rparr>)
         else if isTest fileClassification \<or> isConfig fileClassification \<or>
                 isBuild fileClassification then
           (if \<not> isTypeOnly imp
            then st\<lparr> flagUsedInDev := True, allImportsAreTypeOnly := False \<rparr>
            else st\<lparr> flagUsedInDev := True \<rparr>)
         else st)"

fun classifyImports ::
  "path_module \<Rightarrow> ProjectConfig \<Rightarrow> usage_flags \<Rightarrow> ImportInfo list \<Rightarrow> usage_flags" where
  "classifyImports path config st [] = st"
| "classifyImports path config st (imp # imps) =
     classifyImports path config (classifyImport path config st imp) imps"

text \<open>The decision chain after the loop: \<open>canMove\<close> and \<open>reason\<close>.\<close>

definition decideMove :: "usage_flags \<Rightarrow> bool \<times> string" where
  "decideMove st =
     (if \<not> flagUsedInProduction st then
        (True, ''Only used in dev/test/config files'')
      else if hasTypeOnlyInProduction st \<and> \<not> hasRuntimeInProduction st then
        (True, ''Only type-only imports in production code'')
      else if hasRuntimeInProduction st then
        (False, ''Has runtime imports in production code'')
      else
        (False, ''Used in production code''))"

definition analyzePackageUsage ::
  "path_module \<Rightarrow> string \<Rightarrow> ImportInfo list \<Rightarrow> ProjectConfig \<Rightarrow> PackageUsage" where
  "analyzePackageUsage path name imps config =
     (if length imps = 0 then
        \<lparr> usagePackageName = name, usageImports = [], usedInProduction = False,
          usedInDev = False, onlyTypeImports = False, canMoveToDevDependencies = False,
          usageReason = ''Package not found in imports (may be used in scripts or other ways)'' \<rparr>
      else
        let st = classifyImports path config initialFlags imps;
            (canMove, reason) = decideMove st
        in \<lparr> usagePackageName = name, usageImports = imps,
             usedInProduction = flagUsedInProduction st,
             usedInDev = flagUsedInDev st,
             onlyTypeImports = (allImportsAreTypeOnly st \<and> length imps > 0),
             canMoveToDevDependencies = canMove,
             usageReason = reason \<rparr>)"

text \<open>
  The grouping loop of \<open>analyzeDependencies\<close>: the \<open>Map\<close> from package names to arrays of
  import records is a partial function; \<open>push\<close> appends to the array stored under the key.
\<close>

definition addImport ::
  "(string \<rightharpoonup> ImportInfo list) \<Rightarrow> ImportInfo \<Rightarrow> (string \<rightharpoonup> ImportInfo list)" where
  "addImport importsByPackage imp =
     (let m = (if importsByPackage (packageName imp) = None
               then importsByPackage(packageName imp \<mapsto> [])
               else importsByPackage)
      in case m (packageName imp) of
           None \<Rightarrow> m
         | Some arr \<Rightarrow> m(packageName imp \<mapsto> arr @ [imp]))"

fun groupImports ::
  "(string \<rightharpoonup> ImportInfo list) \<Rightarrow> ImportInfo list \<Rightarrow> (string \<rightharpoonup> ImportInfo list)" where
  "groupImports importsByPackage [] = importsByPackage"
| "groupImports importsByPackage (imp # imps) =
     groupImports (addImport importsByPackage imp) imps"

text \<open>\<open>importsByPackage.get(packageName) || []\<close>.\<close>

definition getOrEmpty :: "(string \<rightharpoonup> ImportInfo list) \<Rightarrow> string \<Rightarrow> ImportInfo list" where
  "getOrEmpty importsByPackage name =
     (case importsByPackage name of None \<Rightarrow> [] | Some arr \<Rightarrow> arr)"

text \<open>\<open>Object.keys(config.packageJson.dependencies || {})\<close>.\<close>

definition dependencyNames :: "ProjectConfig \<Rightarrow> string list" where
  "dependencyNames config =
     (case dependencies (packageJson config) of None \<Rightarrow> [] | Some deps \<Rightarrow> map fst deps)"

definition analyzeDependencies ::
  "path_module \<Rightarrow> ProjectConfig \<Rightarrow> ImportInfo list \<Rightarrow> AnalysisResult" where
  "analyzeDependencies path config imps =
     (let deps = dependencyNames config;
          importsByPackage = groupImports Map.empty imps;
          packageUsages =
            map (\<lambda>name. analyzePackageUsage path name (getOrEmpty importsByPackage name) config)
              deps;
          toMove = filter (\<lambda>pkg. canMoveToDevDependencies pkg) packageUsages;
          toKeep = filter (\<lambda>pkg. \<not> canMoveToDevDependencies pkg) packageUsages
      in \<lparr> packagesToMove = toMove, packagesToKeep = toKeep,
           totalDependencies = length deps, canMoveCount = length toMove \<rparr>)"

section \<open>The specification's wording\<close>

text \<open>
  Package-name resolution as the specification words it: cut the string at its first \<open>?\<close>
  or \<open>#\<close>, split at \<open>/\<close>; for a string that starts with \<open>@\<close> the name is the first two
  segments joined by \<open>/\<close>, otherwise the first segment alone.
\<close>

definition packageNameSpec :: "string \<Rightarrow> string" where
  "packageNameSpec s =
     (let stripped = takeWhile (\<lambda>c. c \<noteq> CHR ''?'' \<and> c \<noteq> CHR ''#'') s;
          segments = split stripped (CHR ''/'')
      in if startsWith s ''@'' then join (take 2 segments) ''/''
         else join (take 1 segments) ''/'')"

text \<open>
  Lying under a configured source directory as the specification words it in rule 4 of the
  classifier: the normalized path starts with a named source directory and a slash (with or
  without a leading \<open>./\<close>), or the source directories contain the root entry \<open>.\<close> and the
  path has no subdirectory component, that is, no slash.
\<close>

definition liesUnderSourceDir :: "string \<Rightarrow> ProjectConfig \<Rightarrow> bool" where
  "liesUnderSourceDir normalizedPath config =
     (list_ex
        (\<lambda>sourceDir.
           sourceDir \<noteq> ''.'' \<and>
           (startsWith normalizedPath (sourceDir @ ''/'') \<or>
            startsWith normalizedPath (''./'' @ sourceDir @ ''/'')))
        (sourceDirs config) \<or>
      (''.'' \<in> set (sourceDirs config) \<and> length (split normalizedPath (CHR ''/'')) = 1))"

text \<open>
  The specification's test for a type-only declaration speaks of every specifier of the
  declaration; \<open>hasSpecifiers\<close> says that there is one.
\<close>

definition hasSpecifiers :: "ImportDeclaration \<Rightarrow> bool" where
  "hasSpecifiers node = (case specifiers node of None \<Rightarrow> False | Some specs \<Rightarrow> specs \<noteq> [])"

definition everySpecifierTypeOnly :: "ImportDeclaration \<Rightarrow> bool" where
  "everySpecifierTypeOnly node =
     (case specifiers node of
        None \<Rightarrow> True
      | Some specs \<Rightarrow> list_all (\<lambda>spec. specImportKind spec = Some ''type'') specs)"

text \<open>
  Re-aggregation of two analyses: the flags of two groups merge field by field, and the
  groups of two record lists merge by concatenation under each declared dependency.
\<close>

definition mergeFlags :: "usage_flags \<Rightarrow> usage_flags \<Rightarrow> usage_flags" where
  "mergeFlags a b =
     \<lparr> flagUsedInProduction = (flagUsedInProduction a \<or> flagUsedInProduction b),
       flagUsedInDev = (flagUsedInDev a \<or> flagUsedInDev b),
       hasRuntimeInProduction = (hasRuntimeInProduction a \<or> hasRuntimeInProduction b),
       hasTypeOnlyInProduction = (hasTypeOnlyInProduction a \<or> hasTypeOnlyInProduction b),
       allImportsAreTypeOnly = (allImportsAreTypeOnly a \<and> allImportsAreTypeOnly b) \<rparr>"

definition reaggregate ::
  "path_module \<Rightarrow> ProjectConfig \<Rightarrow> (string \<rightharpoonup> ImportInfo list) \<Rightarrow>
     (string \<rightharpoonup> ImportInfo list) \<Rightarrow> AnalysisResult" where
  "reaggregate path config groups1 groups2 =
     (let deps = dependencyNames config;
          packageUsages =
            map (\<lambda>name. analyzePackageUsage path name
                           (getOrEmpty groups1 name @ getOrEmpty groups2 name) config)
              deps;
          toMove = filter (\<lambda>pkg. canMoveToDevDependencies pkg) packageUsages;
          toKeep = filter (\<lambda>pkg. \<not> canMoveToDevDependencies pkg) packageUsages
      in \<lparr> packagesToMove = toMove, packagesToKeep = toKeep,
           totalDependencies = length deps, canMoveCount = length toMove \<rparr>)"

section \<open>Example projects\<close>

text \<open>
  A project with the usual layout, whose manifest declares \<open>lodash\<close> and \<open>@types/node\<close>,
  and a flat project whose only source directory is the root.
\<close>

definition srcProject :: ProjectConfig where
  "srcProject =
     \<lparr> packageJson =
         \<lparr> dependencies = Some [(''lodash'', ''^4.0.0''), (''@types/node'', ''^20.0.0'')] \<rparr>,
       rootDir = ''/proj'', sourceDirs = [''src''], testDirs = [''test''],
       buildDirs = [''dist''] \<rparr>"

definition flatProject :: ProjectConfig where
  "flatProject =
     \<lparr> packageJson = \<lparr> dependencies = Some [(''lodash'', ''^4.0.0'')] \<rparr>,
       rootDir = ''/proj'', sourceDirs = [''.''], testDirs = [], buildDirs = [] \<rparr>"

definition importAt :: "string \<Rightarrow> bool \<Rightarrow> string \<Rightarrow> ImportInfo" where
  "importAt name typeOnly file =
     \<lparr> packageName = name, isTypeOnly = typeOnly, filePath = file, line = 1, column = 0 \<rparr>"

text \<open>\<open>import { type X, y } from 'pkg'\<close> and \<open>import 'side-effect-pkg'\<close>, both on line 1.\<close>

definition mixedImport :: ImportDeclaration where
  "mixedImport =
     \<lparr> importKind = Some ''value'',
       specifiers = Some [\<lparr> specImportKind = Some ''type'', importedType = Some ''Identifier'' \<rparr>,
                          \<lparr> specImportKind = Some ''value'', importedType = Some ''Identifier'' \<rparr>],
       sourceValue = Some ''pkg'', locStart = Some (1, 0) \<rparr>"

definition sideEffectImport :: ImportDeclaration where
  "sideEffectImport =
     \<lparr> importKind = Some ''value'', specifiers = Some [],
       sourceValue = Some ''side-effect-pkg'', locStart = Some (1, 0) \<rparr>"


section \<open>Auxiliary facts\<close>

lemma isInSourceDir_root: "''.'' \<in> set (sourceDirs config) \<Longrightarrow> isInSourceDir p config"
  unfolding isInSourceDir_def list_ex_iff by auto

text \<open>
  The root-level test at the head of \<open>isInSourceDir\<close> decides nothing: the function is the
  scan of the source directories alone, in which the entry \<open>.\<close> accepts every path.
\<close>

lemma isInSourceDir_scan_only:
  "isInSourceDir p config =
     list_ex
       (\<lambda>sourceDir.
          if sourceDir = ''.'' then True
          else startsWith p (sourceDir @ ''/'') \<or> startsWith p (''./'' @ sourceDir @ ''/''))
       (sourceDirs config)"
  unfolding isInSourceDir_def list_ex_iff by auto

text \<open>
  Without the root entry among the source directories, the code's test and the
  specification's wording agree.
\<close>

lemma isInSourceDir_named:
  "''.'' \<notin> set (sourceDirs config) \<Longrightarrow> isInSourceDir p config = liesUnderSourceDir p config"
proof -
  assume n: "''.'' \<notin> set (sourceDirs config)"
  then have "\<And>d. d \<in> set (sourceDirs config) \<Longrightarrow> d \<noteq> ''.''" by blast
  with n show ?thesis
    unfolding isInSourceDir_def liesUnderSourceDir_def list_ex_iff by fastforce
qed

text \<open>
  What holds of every file that \<open>classifyFile\<close> reports as production: the code's own source
  test accepted its path, and none of the three other flags is set.
\<close>

lemma classifyFile_production_flags:
  "isProduction (classifyFile path file config) \<Longrightarrow>
     isInSourceDir (replaceBackslashes (relative path (rootDir config) file)) config \<and>
     \<not> isTest (classifyFile path file config) \<and>
     \<not> isBuild (classifyFile path file config) \<and>
     \<not> isConfig (classifyFile path file config)"
  unfolding classifyFile_def Let_def by (simp split: if_splits)

lemma classifyFile_production_named_source:
  assumes "''.'' \<notin> set (sourceDirs config)"
    and "isProduction (classifyFile path file config)"
  shows "liesUnderSourceDir (replaceBackslashes (relative path (rootDir config) file)) config"
  using classifyFile_production_flags[OF assms(2)] isInSourceDir_named[OF assms(1)] by simp

lemma classifyImports_append:
  "classifyImports path config st (xs @ ys) =
     classifyImports path config (classifyImports path config st xs) ys"
  by (induction xs arbitrary: st) simp_all

lemma flagUsedInProduction_iff:
  "flagUsedInProduction (classifyImports path config st imps) \<longleftrightarrow>
     flagUsedInProduction st \<or>
     (\<exists>imp \<in> set imps. isProduction (classifyFile path (filePath imp) config))"
  by (induction imps arbitrary: st) (auto simp: classifyImport_def Let_def)

lemma hasRuntimeInProduction_iff:
  "hasRuntimeInProduction (classifyImports path config st imps) \<longleftrightarrow>
     hasRuntimeInProduction st \<or>
     (\<exists>imp \<in> set imps. isProduction (classifyFile path (filePath imp) config) \<and>
                         \<not> isTypeOnly imp)"
  by (induction imps arbitrary: st) (auto simp: classifyImport_def Let_def)

lemma hasTypeOnlyInProduction_iff:
  "hasTypeOnlyInProduction (classifyImports path config st imps) \<longleftrightarrow>
     hasTypeOnlyInProduction st \<or>
     (\<exists>imp \<in> set imps. isProduction (classifyFile path (filePath imp) config) \<and>
                         isTypeOnly imp)"
  by (induction imps arbitrary: st) (auto simp: classifyImport_def Let_def)

lemma flagUsedInDev_iff:
  "flagUsedInDev (classifyImports path config st imps) \<longleftrightarrow>
     flagUsedInDev st \<or>
     (\<exists>imp \<in> set imps.
        \<not> isProduction (classifyFile path (filePath imp) config) \<and>
        (isTest (classifyFile path (filePath imp) config) \<or>
         isConfig (classifyFile path (filePath imp) config) \<or>
         isBuild (classifyFile path (filePath imp) config)))"
  by (induction imps arbitrary: st) (auto simp: classifyImport_def Let_def)

lemma allImportsAreTypeOnly_iff:
  "allImportsAreTypeOnly (classifyImports path config st imps) \<longleftrightarrow>
     allImportsAreTypeOnly st \<and>
     (\<forall>imp \<in> set imps.
        isProduction (classifyFile path (filePath imp) config) \<or>
        isTest (classifyFile path (filePath imp) config) \<or>
        isConfig (classifyFile path (filePath imp) config) \<or>
        isBuild (classifyFile path (filePath imp) config) \<longrightarrow> isTypeOnly imp)"
  by (induction imps arbitrary: st) (auto simp: classifyImport_def Let_def)

lemma getOrEmpty_addImport:
  "getOrEmpty (addImport m imp) name =
     getOrEmpty m name @ (if packageName imp = name then [imp] else [])"
  by (auto simp: getOrEmpty_def addImport_def Let_def split: option.splits)

lemma getOrEmpty_groupImports:
  "getOrEmpty (groupImports m imps) name =
     getOrEmpty m name @ filter (\<lambda>imp. packageName imp = name) imps"
  by (induction imps arbitrary: m) (simp_all add: getOrEmpty_addImport)

lemma getOrEmpty_group_empty:
  "getOrEmpty (groupImports Map.empty imps) name = filter (\<lambda>imp. packageName imp = name) imps"
  by (simp add: getOrEmpty_groupImports) (simp add: getOrEmpty_def)

lemma packagesToMove_eq:
  "packagesToMove (analyzeDependencies path config imps) =
     filter canMoveToDevDependencies
       (map (\<lambda>name. analyzePackageUsage path name
                      (filter (\<lambda>imp. packageName imp = name) imps) config)
          (dependencyNames config))"
  by (simp add: analyzeDependencies_def Let_def getOrEmpty_group_empty)

lemma packagesToKeep_eq:
  "packagesToKeep (analyzeDependencies path config imps) =
     filter (\<lambda>pkg. \<not> canMoveToDevDependencies pkg)
       (map (\<lambda>name. analyzePackageUsage path name
                      (filter (\<lambda>imp. packageName imp = name) imps) config)
          (dependencyNames config))"
  by (simp add: analyzeDependencies_def Let_def getOrEmpty_group_empty)

lemma in_packagesToMove:
  "name \<in> set (dependencyNames config) \<Longrightarrow>
   canMoveToDevDependencies
     (analyzePackageUsage path name (filter (\<lambda>imp. packageName imp = name) imps) config) \<Longrightarrow>
   analyzePackageUsage path name (filter (\<lambda>imp. packageName imp = name) imps) config
     \<in> set (packagesToMove (analyzeDependencies path config imps))"
  by (simp add: packagesToMove_eq)

lemma in_packagesToKeep:
  "name \<in> set (dependencyNames config) \<Longrightarrow>
   \<not> canMoveToDevDependencies
     (analyzePackageUsage path name (filter (\<lambda>imp. packageName imp = name) imps) config) \<Longrightarrow>
   analyzePackageUsage path name (filter (\<lambda>imp. packageName imp = name) imps) config
     \<in> set (packagesToKeep (analyzeDependencies path config imps))"
  by (simp add: packagesToKeep_eq)

lemma canMove_nonempty:
  "imps \<noteq> [] \<Longrightarrow>
   canMoveToDevDependencies (analyzePackageUsage path name imps config) =
     fst (decideMove (classifyImports path config initialFlags imps))"
  by (simp add: analyzePackageUsage_def Let_def split: prod.splits)

lemma usageReason_nonempty:
  "imps \<noteq> [] \<Longrightarrow>
   usageReason (analyzePackageUsage path name imps config) =
     snd (decideMove (classifyImports path config initialFlags imps))"
  by (simp add: analyzePackageUsage_def Let_def split: prod.splits)

lemma split_not_Nil: "split s c \<noteq> []"
  by (induction s) (auto split: list.splits)

lemma split_first: "split s c ! 0 = takeWhile (\<lambda>x. x \<noteq> c) s"
  by (induction s) (auto split: list.splits simp: split_not_Nil)

lemma split_absent: "c \<notin> set s \<Longrightarrow> split s c = [s]"
  by (induction s) auto

lemma split_at_separator: "c \<notin> set a \<Longrightarrow> split (a @ c # b) c = a # split b c"
  by (induction a) auto

lemma split_second:
  "2 \<le> length (split s c) \<Longrightarrow>
   split s c ! Suc 0 = takeWhile (\<lambda>x. x \<noteq> c) (tl (dropWhile (\<lambda>x. x \<noteq> c) s))"
proof (induction s)
  case Nil
  then show ?case by simp
next
  case (Cons x xs)
  show ?case
  proof (cases "x = c")
    case True
    then show ?thesis by (simp add: split_first)
  next
    case False
    obtain p ps where sp: "split xs c = p # ps"
      using split_not_Nil[of xs c] by (cases "split xs c") auto
    with False Cons.prems have "2 \<le> length (split xs c)" by simp
    from Cons.IH[OF this] False sp show ?thesis by simp
  qed
qed

lemma takeWhile_twice:
  "takeWhile (\<lambda>x. x \<noteq> b) (takeWhile (\<lambda>x. x \<noteq> a) s) = takeWhile (\<lambda>x. x \<noteq> a \<and> x \<noteq> b) s"
  by (induction s) auto

lemma cleanSource_eq:
  "split (split s (CHR ''?'') ! 0) (CHR ''#'') ! 0 =
     takeWhile (\<lambda>c. c \<noteq> CHR ''?'' \<and> c \<noteq> CHR ''#'') s"
  by (simp add: split_first takeWhile_twice)

lemma takeWhile_free: "\<forall>x \<in> set s. P x \<Longrightarrow> takeWhile P s = s"
  by (induction s) auto

lemma set_takeWhile_sat: "x \<in> set (takeWhile P s) \<Longrightarrow> P x"
  by (induction s) (auto split: if_splits)

lemma extractPackageName_alt:
  "extractPackageName s =
     (let cleanSource = takeWhile (\<lambda>c. c \<noteq> CHR ''?'' \<and> c \<noteq> CHR ''#'') s;
          parts = split cleanSource (CHR ''/'')
      in if startsWith cleanSource ''@'' \<and> length parts \<ge> 2
         then parts ! 0 @ ''/'' @ parts ! 1
         else parts ! 0)"
  unfolding extractPackageName_def cleanSource_eq ..

lemma startsWith_clean:
  "startsWith (takeWhile (\<lambda>c. c \<noteq> CHR ''?'' \<and> c \<noteq> CHR ''#'') s) ''@'' = startsWith s ''@''"
  by (cases s) (auto simp: startsWith_def)

lemma join_take2: "xs \<noteq> [] \<Longrightarrow>
  join (take 2 xs) sep = (if length xs \<ge> 2 then xs ! 0 @ sep @ xs ! 1 else xs ! 0)"
  by (cases xs; cases "tl xs") (auto simp: numeral_2_eq_2)

lemma join_take1: "xs \<noteq> [] \<Longrightarrow> join (take (Suc 0) xs) sep = xs ! 0"
  by (cases xs) auto

lemma extractPackageName_spec: "extractPackageName s = packageNameSpec s"
  unfolding extractPackageName_alt packageNameSpec_def Let_def startsWith_clean
  by (simp add: join_take2 join_take1 split_not_Nil)

lemma extractPackageName_fixed:
  assumes "CHR ''?'' \<notin> set r" "CHR ''#'' \<notin> set r"
    and "r = a @ ''/'' @ b \<and> startsWith a ''@'' \<and> CHR ''/'' \<notin> set a \<and> CHR ''/'' \<notin> set b
         \<or> CHR ''/'' \<notin> set r"
  shows "extractPackageName r = r"
proof -
  have clean: "takeWhile (\<lambda>c. c \<noteq> CHR ''?'' \<and> c \<noteq> CHR ''#'') r = r"
    using assms(1,2) by (intro takeWhile_free) auto
  from assms(3) show ?thesis
  proof
    assume h: "r = a @ ''/'' @ b \<and> startsWith a ''@'' \<and> CHR ''/'' \<notin> set a \<and> CHR ''/'' \<notin> set b"
    then have sp: "split r (CHR ''/'') = [a, b]"
      by (simp add: split_at_separator split_absent)
    from h have "startsWith r ''@''" by (auto simp: startsWith_def)
    with sp h show ?thesis
      unfolding extractPackageName_alt Let_def clean by simp
  next
    assume "CHR ''/'' \<notin> set r"
    then have "split r (CHR ''/'') = [r]" by (rule split_absent)
    then show ?thesis
      unfolding extractPackageName_alt Let_def clean by simp
  qed
qed

lemma extractPackageName_idem: "extractPackageName (extractPackageName s) = extractPackageName s"
proof -
  let ?clean = "takeWhile (\<lambda>c. c \<noteq> CHR ''?'' \<and> c \<noteq> CHR ''#'') s"
  let ?parts = "split ?clean (CHR ''/'')"
  let ?p0 = "takeWhile (\<lambda>x. x \<noteq> CHR ''/'') ?clean"
  let ?p1 = "takeWhile (\<lambda>x. x \<noteq> CHR ''/'') (tl (dropWhile (\<lambda>x. x \<noteq> CHR ''/'') ?clean))"
  have c: "CHR ''?'' \<notin> set ?clean" "CHR ''#'' \<notin> set ?clean"
    by (auto dest: set_takeWhile_sat)
  have p0: "?parts ! 0 = ?p0" by (rule split_first)
  have s0: "set ?p0 \<subseteq> set ?clean" by (auto dest: set_takeWhileD)
  have s1: "set ?p1 \<subseteq> set ?clean"
  proof
    fix x assume "x \<in> set ?p1"
    then have "x \<in> set (tl (dropWhile (\<lambda>x. x \<noteq> CHR ''/'') ?clean))"
      by (rule set_takeWhileD[THEN conjunct1])
    then have "x \<in> set (dropWhile (\<lambda>x. x \<noteq> CHR ''/'') ?clean)"
      by (cases "dropWhile (\<lambda>x. x \<noteq> CHR ''/'') ?clean") auto
    then show "x \<in> set ?clean" by (rule set_dropWhileD)
  qed
  have n0: "CHR ''/'' \<notin> set ?p0" by (auto dest: set_takeWhile_sat)
  have n1: "CHR ''/'' \<notin> set ?p1" by (auto dest: set_takeWhile_sat)
  show ?thesis
  proof (cases "startsWith ?clean ''@'' \<and> length ?parts \<ge> 2")
    case True
    then have "2 \<le> length ?parts" by simp
    from split_second[OF this] have p1: "?parts ! Suc 0 = ?p1" .
    from True have e: "extractPackageName s = ?p0 @ ''/'' @ ?p1"
      unfolding extractPackageName_alt Let_def by (simp add: p0 p1)
    from True have st: "startsWith ?p0 ''@''"
      by (cases ?clean) (auto simp: startsWith_def)
    show ?thesis
      unfolding e
      by (rule extractPackageName_fixed[where a = ?p0 and b = ?p1])
         (use c s0 s1 n0 n1 st in auto)
  next
    case False
    then have e: "extractPackageName s = ?p0"
      unfolding extractPackageName_alt Let_def by (simp add: p0)
    show ?thesis
      unfolding e
      by (rule extractPackageName_fixed[where a = "[]" and b = "[]"])
         (use c s0 n0 in auto)
  qed
qed

lemma classifyImports_unclassified:
  "\<forall>imp \<in> set imps.
      \<not> isProduction (classifyFile path (filePath imp) config) \<and>
      \<not> isTest (classifyFile path (filePath imp) config) \<and>
      \<not> isBuild (classifyFile path (filePath imp) config) \<and>
      \<not> isConfig (classifyFile path (filePath imp) config) \<Longrightarrow>
   classifyImports path config st imps = st"
  by (induction imps arbitrary: st) (simp_all add: classifyImport_def Let_def)

lemma classifyImports_merge:
  "classifyImports path config st imps =
     mergeFlags st (classifyImports path config initialFlags imps)"
  by (rule usage_flags.equality)
     (auto simp: mergeFlags_def flagUsedInProduction_iff flagUsedInDev_iff
        hasRuntimeInProduction_iff hasTypeOnlyInProduction_iff allImportsAreTypeOnly_iff
        initialFlags_def)

lemma mergeFlags_commute: "mergeFlags a b = mergeFlags b a"
  by (auto simp: mergeFlags_def)

lemma mergeFlags_assoc: "mergeFlags (mergeFlags a b) c = mergeFlags a (mergeFlags b c)"
  by (auto simp: mergeFlags_def)

lemma classifyImports_swap:
  "classifyImports path config initialFlags (g1 @ g2) =
   classifyImports path config initialFlags (g2 @ g1)"
proof -
  have "classifyImports path config initialFlags (g1 @ g2) =
        mergeFlags (classifyImports path config initialFlags g1)
                   (classifyImports path config initialFlags g2)"
    by (subst classifyImports_append) (rule classifyImports_merge)
  also have "\<dots> = mergeFlags (classifyImports path config initialFlags g2)
                   (classifyImports path config initialFlags g1)"
    by (rule mergeFlags_commute)
  also have "\<dots> = classifyImports path config initialFlags (g2 @ g1)"
    by (subst classifyImports_append) (rule classifyImports_merge[symmetric])
  finally show ?thesis .
qed

lemma analyzePackageUsage_flags_swap:
  "(analyzePackageUsage path name (g1 @ g2) config)\<lparr> usageImports := [] \<rparr> =
   (analyzePackageUsage path name (g2 @ g1) config)\<lparr> usageImports := [] \<rparr>"
  by (simp add: analyzePackageUsage_def Let_def classifyImports_swap[of path config g1 g2]
        split: prod.splits)

lemma usedInProduction_flag:
  "usedInProduction (analyzePackageUsage path name imps config) =
     flagUsedInProduction (classifyImports path config initialFlags imps)"
  by (cases imps)
     (simp_all add: analyzePackageUsage_def Let_def initialFlags_def split: prod.splits)

lemma usedInDev_flag:
  "usedInDev (analyzePackageUsage path name imps config) =
     flagUsedInDev (classifyImports path config initialFlags imps)"
  by (cases imps)
     (simp_all add: analyzePackageUsage_def Let_def initialFlags_def split: prod.splits)

lemma usageImports_group: "usageImports (analyzePackageUsage path name imps config) = imps"
  by (cases imps) (simp_all add: analyzePackageUsage_def Let_def split: prod.splits)

section \<open>Properties of the file classifier\<close>


text \<open>
  C5. The specification's invariant is that a file is production only if it lies under a
  configured source directory and is none of test, build and configuration. The code breaks
  the first half in a project whose source directories contain the root entry \<open>.\<close>: there
  \<open>lib/util.ts\<close>, which has a subdirectory component, and \<open>/other/x.ts\<close>, which lies
  outside the project root, are both production, though neither lies under a source
  directory; the three other flags are false, as the invariant says.
\<close>

theorem production_outside_source_dir:
  "isProduction (classifyFile (posix ''/'') ''/proj/lib/util.ts'' flatProject) \<and>
   \<not> liesUnderSourceDir
        (replaceBackslashes (relative (posix ''/'') (rootDir flatProject) ''/proj/lib/util.ts''))
        flatProject \<and>
   replaceBackslashes (relative (posix ''/'') (rootDir flatProject) ''/other/x.ts'') =
     ''../other/x.ts'' \<and>
   isProduction (classifyFile (posix ''/'') ''/other/x.ts'' flatProject) \<and>
   \<not> liesUnderSourceDir ''../other/x.ts'' flatProject \<and>
   \<not> isTest (classifyFile (posix ''/'') ''/other/x.ts'' flatProject) \<and>
   \<not> isBuild (classifyFile (posix ''/'') ''/other/x.ts'' flatProject) \<and>
   \<not> isConfig (classifyFile (posix ''/'') ''/other/x.ts'' flatProject)"
  by code_simp

text \<open>
  C6. A file whose normalized root-relative path starts with a configured build directory
  and a slash (with or without a leading \<open>./\<close>) is classified as build output and nothing
  else, whatever its name: the build test comes first, so a \<open>*.test.ts\<close> name under a build
  directory is still build output.
\<close>

theorem classifyFile_build_dir:
  assumes "buildDir \<in> set (buildDirs config)"
    and "replaceBackslashes (relative path (rootDir config) file) = buildDir @ ''/'' @ rest \<or>
         replaceBackslashes (relative path (rootDir config) file) = ''./'' @ buildDir @ ''/'' @ rest"
  shows "classifyFile path file config =
           \<lparr> isProduction = False, isTest = False, isBuild = True, isConfig = False,
             reason = ''File is in build directory'' \<rparr>"
proof -
  let ?np = "replaceBackslashes (relative path (rootDir config) file)"
  from assms(2) have "startsWith ?np (buildDir @ ''/'') \<or> startsWith ?np (''./'' @ buildDir @ ''/'')"
    by (auto simp: startsWith_def prefix_def)
  with assms(1) have "list_ex (\<lambda>buildDir. startsWith ?np (buildDir @ ''/'') \<or>
                       startsWith ?np (''./'' @ buildDir @ ''/'')) (buildDirs config)"
    unfolding list_ex_iff by blast
  then show ?thesis
    unfolding classifyFile_def Let_def by simp
qed

theorem classifyFile_build_dir_witness:
  "''dist'' \<in> set (buildDirs srcProject) \<and>
   replaceBackslashes (relative (posix ''/'') (rootDir srcProject) ''/proj/dist/app.test.ts'') =
     ''dist'' @ ''/'' @ ''app.test.ts'' \<and>
   isTestFileName (basename (posix ''/'') ''/proj/dist/app.test.ts'') \<and>
   classifyFile (posix ''/'') ''/proj/dist/app.test.ts'' srcProject =
     \<lparr> isProduction = False, isTest = False, isBuild = True, isConfig = False,
       reason = ''File is in build directory'' \<rparr>"
proof -
  have b: "''dist'' \<in> set (buildDirs srcProject)"
    by code_simp
  have np: "replaceBackslashes (relative (posix ''/'') (rootDir srcProject) ''/proj/dist/app.test.ts'') =
     ''dist'' @ ''/'' @ ''app.test.ts''"
    by code_simp
  have t: "isTestFileName (basename (posix ''/'') ''/proj/dist/app.test.ts'')"
    by code_simp
  from classifyFile_build_dir[OF b disjI1, OF np] b np t show ?thesis
    by blast
qed

section \<open>Properties of the analyzer\<close>

text \<open>
  C2. For a declared dependency with a non-empty group of import records: if some record in
  a production file is type-only and none is a runtime import, the verdict is in the move
  list with the type-only reason; if some record in a production file is a runtime import,
  the verdict is in the keep list; hence one more runtime import of the package in a
  production file turns the verdict into keep.
\<close>

theorem type_only_verdict:
  assumes dep: "name \<in> set (dependencyNames config)"
    and grp: "grp = filter (\<lambda>imp. packageName imp = name) imps"
    and ne: "grp \<noteq> []"
  shows
    "((\<exists>imp \<in> set grp. isProduction (classifyFile path (filePath imp) config) \<and> isTypeOnly imp) \<and>
      \<not> (\<exists>imp \<in> set grp. isProduction (classifyFile path (filePath imp) config) \<and>
                            \<not> isTypeOnly imp) \<longrightarrow>
        analyzePackageUsage path name grp config
          \<in> set (packagesToMove (analyzeDependencies path config imps)) \<and>
        canMoveToDevDependencies (analyzePackageUsage path name grp config) \<and>
        usageReason (analyzePackageUsage path name grp config) =
          ''Only type-only imports in production code'') \<and>
     ((\<exists>imp \<in> set grp. isProduction (classifyFile path (filePath imp) config) \<and>
                         \<not> isTypeOnly imp) \<longrightarrow>
        analyzePackageUsage path name grp config
          \<in> set (packagesToKeep (analyzeDependencies path config imps)) \<and>
        \<not> canMoveToDevDependencies (analyzePackageUsage path name grp config)) \<and>
     (\<forall>v. packageName v = name \<and> isProduction (classifyFile path (filePath v) config) \<and>
          \<not> isTypeOnly v \<longrightarrow>
        analyzePackageUsage path name (grp @ [v]) config
          \<in> set (packagesToKeep (analyzeDependencies path config (imps @ [v]))) \<and>
        \<not> canMoveToDevDependencies (analyzePackageUsage path name (grp @ [v]) config))"
proof (intro conjI impI allI)
  let ?st = "classifyImports path config initialFlags grp"
  let ?u = "analyzePackageUsage path name grp config"
  assume a: "(\<exists>imp \<in> set grp. isProduction (classifyFile path (filePath imp) config) \<and> isTypeOnly imp) \<and>
      \<not> (\<exists>imp \<in> set grp. isProduction (classifyFile path (filePath imp) config) \<and>
                            \<not> isTypeOnly imp)"
  then have "flagUsedInProduction ?st" "hasTypeOnlyInProduction ?st" "\<not> hasRuntimeInProduction ?st"
    by (auto simp: flagUsedInProduction_iff hasTypeOnlyInProduction_iff
                   hasRuntimeInProduction_iff initialFlags_def)
  then have d: "decideMove ?st = (True, ''Only type-only imports in production code'')"
    by (simp add: decideMove_def)
  show mv: "canMoveToDevDependencies ?u"
    using ne d by (simp add: canMove_nonempty)
  show "usageReason ?u = ''Only type-only imports in production code''"
    using ne d by (simp add: usageReason_nonempty)
  show "?u \<in> set (packagesToMove (analyzeDependencies path config imps))"
    using in_packagesToMove[OF dep, of path imps] mv unfolding grp by simp
next
  let ?st = "classifyImports path config initialFlags grp"
  let ?u = "analyzePackageUsage path name grp config"
  assume a: "\<exists>imp \<in> set grp. isProduction (classifyFile path (filePath imp) config) \<and>
                         \<not> isTypeOnly imp"
  then have "flagUsedInProduction ?st" "hasRuntimeInProduction ?st"
    by (auto simp: flagUsedInProduction_iff hasRuntimeInProduction_iff)
  then have d: "fst (decideMove ?st) = False"
    by (simp add: decideMove_def)
  show kp: "\<not> canMoveToDevDependencies ?u"
    using ne d by (simp add: canMove_nonempty)
  show "?u \<in> set (packagesToKeep (analyzeDependencies path config imps))"
    using in_packagesToKeep[OF dep, of path imps] kp unfolding grp by simp
next
  fix v
  let ?g = "grp @ [v]"
  let ?st = "classifyImports path config initialFlags ?g"
  let ?u = "analyzePackageUsage path name ?g config"
  assume a: "packageName v = name \<and> isProduction (classifyFile path (filePath v) config) \<and>
          \<not> isTypeOnly v"
  then have g: "filter (\<lambda>imp. packageName imp = name) (imps @ [v]) = ?g"
    by (simp add: grp)
  from a have "flagUsedInProduction ?st" "hasRuntimeInProduction ?st"
    by (auto simp: flagUsedInProduction_iff hasRuntimeInProduction_iff)
  then have d: "fst (decideMove ?st) = False"
    by (simp add: decideMove_def)
  show kp: "\<not> canMoveToDevDependencies ?u"
    using d by (simp add: canMove_nonempty)
  show "?u \<in> set (packagesToKeep (analyzeDependencies path config (imps @ [v])))"
    using in_packagesToKeep[OF dep, of path "imps @ [v]"] kp unfolding g by simp
qed

theorem type_only_verdict_witness:
  "analyzePackageUsage (posix ''/'') ''@types/node''
       [importAt ''@types/node'' True ''/proj/src/app.ts''] srcProject
     \<in> set (packagesToMove (analyzeDependencies (posix ''/'') srcProject
              [importAt ''lodash'' False ''/proj/test/app.test.ts'',
               importAt ''@types/node'' True ''/proj/src/app.ts''])) \<and>
   usageReason (analyzePackageUsage (posix ''/'') ''@types/node''
       [importAt ''@types/node'' True ''/proj/src/app.ts''] srcProject) =
     ''Only type-only imports in production code'' \<and>
   analyzePackageUsage (posix ''/'') ''@types/node''
       ([importAt ''@types/node'' True ''/proj/src/app.ts''] @
        [importAt ''@types/node'' False ''/proj/src/main.ts'']) srcProject
     \<in> set (packagesToKeep (analyzeDependencies (posix ''/'') srcProject
              ([importAt ''lodash'' False ''/proj/test/app.test.ts'',
                importAt ''@types/node'' True ''/proj/src/app.ts''] @
               [importAt ''@types/node'' False ''/proj/src/main.ts'']))) \<and>
   analyzePackageUsage (posix ''/'') ''lodash''
       [importAt ''lodash'' False ''/proj/src/app.ts''] srcProject
     \<in> set (packagesToKeep (analyzeDependencies (posix ''/'') srcProject
              [importAt ''lodash'' False ''/proj/src/app.ts'']))"
proof -
  let ?P = "posix ''/''"
  let ?t = "importAt ''@types/node'' True ''/proj/src/app.ts''"
  let ?l = "importAt ''lodash'' False ''/proj/test/app.test.ts''"
  let ?v = "importAt ''@types/node'' False ''/proj/src/main.ts''"
  let ?w = "importAt ''lodash'' False ''/proj/src/app.ts''"
  have dep: "''@types/node'' \<in> set (dependencyNames srcProject)"
    by code_simp
  have grp: "[?t] = filter (\<lambda>imp. packageName imp = ''@types/node'') [?l, ?t]"
    by code_simp
  have ne: "[?t] \<noteq> []"
    by simp
  have a: "(\<exists>imp \<in> set [?t]. isProduction (classifyFile ?P (filePath imp) srcProject) \<and>
                               isTypeOnly imp) \<and>
           \<not> (\<exists>imp \<in> set [?t]. isProduction (classifyFile ?P (filePath imp) srcProject) \<and>
                                 \<not> isTypeOnly imp)"
    by code_simp
  have v: "packageName ?v = ''@types/node'' \<and>
           isProduction (classifyFile ?P (filePath ?v) srcProject) \<and> \<not> isTypeOnly ?v"
    by code_simp
  have dep2: "''lodash'' \<in> set (dependencyNames srcProject)"
    by code_simp
  have grp2: "[?w] = filter (\<lambda>imp. packageName imp = ''lodash'') [?w]"
    by code_simp
  have ne2: "[?w] \<noteq> []"
    by simp
  have a2: "\<exists>imp \<in> set [?w]. isProduction (classifyFile ?P (filePath imp) srcProject) \<and>
                               \<not> isTypeOnly imp"
    by code_simp
  from type_only_verdict[OF dep grp ne, of ?P] a v
       type_only_verdict[OF dep2 grp2 ne2, of ?P] a2
  show ?thesis by blast
qed

text \<open>
  C3. A declared dependency that no import record names has an empty group, and its verdict
  is keep, with the reason that the package was not found in the imports, whatever the
  other inputs are.
\<close>

theorem unreferenced_dependency_kept:
  assumes dep: "name \<in> set (dependencyNames config)"
    and none: "\<forall>imp \<in> set imps. packageName imp \<noteq> name"
  shows "getOrEmpty (groupImports Map.empty imps) name = [] \<and>
         analyzePackageUsage path name [] config
           \<in> set (packagesToKeep (analyzeDependencies path config imps)) \<and>
         \<not> canMoveToDevDependencies (analyzePackageUsage path name [] config) \<and>
         usageReason (analyzePackageUsage path name [] config) =
           ''Package not found in imports (may be used in scripts or other ways)''"
proof -
  from none have e: "filter (\<lambda>imp. packageName imp = name) imps = []"
    by (simp add: filter_empty_conv)
  have k: "\<not> canMoveToDevDependencies (analyzePackageUsage path name [] config)"
    by (simp add: analyzePackageUsage_def)
  have r: "usageReason (analyzePackageUsage path name [] config) =
           ''Package not found in imports (may be used in scripts or other ways)''"
    by (simp add: analyzePackageUsage_def)
  from in_packagesToKeep[OF dep, of path imps] k e
  have "analyzePackageUsage path name [] config
           \<in> set (packagesToKeep (analyzeDependencies path config imps))" by simp
  with e k r show ?thesis by (simp add: getOrEmpty_group_empty)
qed

theorem unreferenced_dependency_kept_witness:
  "''lodash'' \<in> set (dependencyNames srcProject) \<and>
   analyzePackageUsage (posix ''/'') ''lodash'' [] srcProject
     \<in> set (packagesToKeep (analyzeDependencies (posix ''/'') srcProject
              [importAt ''@types/node'' True ''/proj/src/app.ts''])) \<and>
   \<not> canMoveToDevDependencies (analyzePackageUsage (posix ''/'') ''lodash'' [] srcProject) \<and>
   usageReason (analyzePackageUsage (posix ''/'') ''lodash'' [] srcProject) =
     ''Package not found in imports (may be used in scripts or other ways)''"
proof -
  have dep: "''lodash'' \<in> set (dependencyNames srcProject)"
    by code_simp
  have none: "\<forall>imp \<in> set [importAt ''@types/node'' True ''/proj/src/app.ts''].
                packageName imp \<noteq> ''lodash''"
    by code_simp
  from unreferenced_dependency_kept[OF dep none, of "posix ''/''"] dep
  show ?thesis by blast
qed

text \<open>
  C8. The last branch of the decision chain, with the reason \<open>Used in production code\<close>,
  is never taken: after the loop over any group, \<open>usedInProduction\<close> implies that one of
  \<open>hasTypeOnlyInProduction\<close> and \<open>hasRuntimeInProduction\<close> is set, so one of the three
  branches before it fires.
\<close>

theorem fallback_unreachable:
  "(flagUsedInProduction (classifyImports path config initialFlags imps) \<longrightarrow>
      hasTypeOnlyInProduction (classifyImports path config initialFlags imps) \<or>
      hasRuntimeInProduction (classifyImports path config initialFlags imps)) \<and>
   snd (decideMove (classifyImports path config initialFlags imps)) \<noteq> ''Used in production code'' \<and>
   usageReason (analyzePackageUsage path name imps config) \<noteq> ''Used in production code''"
proof -
  let ?st = "classifyImports path config initialFlags imps"
  have inv: "flagUsedInProduction ?st \<longrightarrow> hasTypeOnlyInProduction ?st \<or> hasRuntimeInProduction ?st"
    by (auto simp: flagUsedInProduction_iff hasTypeOnlyInProduction_iff
          hasRuntimeInProduction_iff initialFlags_def)
  then have d: "snd (decideMove ?st) \<noteq> ''Used in production code''"
    by (auto simp: decideMove_def)
  have "usageReason (analyzePackageUsage path name imps config) \<noteq> ''Used in production code''"
  proof (cases "imps = []")
    case True
    then show ?thesis by (simp add: analyzePackageUsage_def)
  next
    case False
    with d show ?thesis by (simp add: usageReason_nonempty)
  qed
  with inv d show ?thesis by blast
qed

theorem fallback_unreachable_witness:
  "flagUsedInProduction (classifyImports (posix ''/'') srcProject initialFlags
      [importAt ''lodash'' False ''/proj/src/app.ts'']) \<and>
   hasRuntimeInProduction (classifyImports (posix ''/'') srcProject initialFlags
      [importAt ''lodash'' False ''/proj/src/app.ts'']) \<and>
   usageReason (analyzePackageUsage (posix ''/'') ''lodash''
      [importAt ''lodash'' False ''/proj/src/app.ts''] srcProject) \<noteq> ''Used in production code''"
proof -
  have u: "flagUsedInProduction (classifyImports (posix ''/'') srcProject initialFlags
      [importAt ''lodash'' False ''/proj/src/app.ts''])"
    by code_simp
  have t: "\<not> hasTypeOnlyInProduction (classifyImports (posix ''/'') srcProject initialFlags
      [importAt ''lodash'' False ''/proj/src/app.ts''])"
    by code_simp
  from fallback_unreachable[of "posix ''/''" srcProject
         "[importAt ''lodash'' False ''/proj/src/app.ts'']" "''lodash''"] u t
  show ?thesis by blast
qed

text \<open>
  C9. Aggregation is compositional. Analysing the concatenation of two record lists is
  re-aggregating the groups of each list; the group of a package in the concatenation is the
  concatenation of its two groups, and each verdict carries its group; the flags after the
  loop over two groups are the merge of the flags of each, the merge being commutative and
  associative; and apart from the order of the records it lists, the verdict of a package is
  the same for either order of the two groups.
\<close>

theorem aggregation_compositional:
  "analyzeDependencies path config (xs @ ys) =
     reaggregate path config (groupImports Map.empty xs) (groupImports Map.empty ys) \<and>
   getOrEmpty (groupImports Map.empty (xs @ ys)) name =
     getOrEmpty (groupImports Map.empty xs) name @ getOrEmpty (groupImports Map.empty ys) name \<and>
   usageImports (analyzePackageUsage path name g1 config) = g1 \<and>
   classifyImports path config initialFlags (g1 @ g2) =
     mergeFlags (classifyImports path config initialFlags g1)
                (classifyImports path config initialFlags g2) \<and>
   mergeFlags a b = mergeFlags b a \<and>
   mergeFlags (mergeFlags a b) c = mergeFlags a (mergeFlags b c) \<and>
   usedInProduction (analyzePackageUsage path name (g1 @ g2) config) =
     (usedInProduction (analyzePackageUsage path name g1 config) \<or>
      usedInProduction (analyzePackageUsage path name g2 config)) \<and>
   usedInDev (analyzePackageUsage path name (g1 @ g2) config) =
     (usedInDev (analyzePackageUsage path name g1 config) \<or>
      usedInDev (analyzePackageUsage path name g2 config)) \<and>
   (analyzePackageUsage path name (g1 @ g2) config)\<lparr> usageImports := [] \<rparr> =
     (analyzePackageUsage path name (g2 @ g1) config)\<lparr> usageImports := [] \<rparr>"
proof (intro conjI)
  have m: "classifyImports path config initialFlags (g1 @ g2) =
     mergeFlags (classifyImports path config initialFlags g1)
                (classifyImports path config initialFlags g2)"
    by (subst classifyImports_append) (rule classifyImports_merge)
  show "analyzeDependencies path config (xs @ ys) =
     reaggregate path config (groupImports Map.empty xs) (groupImports Map.empty ys)"
    by (simp add: analyzeDependencies_def reaggregate_def Let_def getOrEmpty_group_empty)
  show "getOrEmpty (groupImports Map.empty (xs @ ys)) name =
     getOrEmpty (groupImports Map.empty xs) name @ getOrEmpty (groupImports Map.empty ys) name"
    by (simp add: getOrEmpty_group_empty)
  show "usageImports (analyzePackageUsage path name g1 config) = g1"
    by (rule usageImports_group)
  show "classifyImports path config initialFlags (g1 @ g2) =
     mergeFlags (classifyImports path config initialFlags g1)
                (classifyImports path config initialFlags g2)"
    by (rule m)
  show "mergeFlags a b = mergeFlags b a"
    by (rule mergeFlags_commute)
  show "mergeFlags (mergeFlags a b) c = mergeFlags a (mergeFlags b c)"
    by (rule mergeFlags_assoc)
  show "usedInProduction (analyzePackageUsage path name (g1 @ g2) config) =
     (usedInProduction (analyzePackageUsage path name g1 config) \<or>
      usedInProduction (analyzePackageUsage path name g2 config))"
    unfolding usedInProduction_flag m by (simp add: mergeFlags_def)
  show "usedInDev (analyzePackageUsage path name (g1 @ g2) config) =
     (usedInDev (analyzePackageUsage path name g1 config) \<or>
      usedInDev (analyzePackageUsage path name g2 config))"
    unfolding usedInDev_flag m by (simp add: mergeFlags_def)
  show "(analyzePackageUsage path name (g1 @ g2) config)\<lparr> usageImports := [] \<rparr> =
     (analyzePackageUsage path name (g2 @ g1) config)\<lparr> usageImports := [] \<rparr>"
    by (rule analyzePackageUsage_flags_swap)
qed

text \<open>
  C10. Import records from files whose classification has all four flags false leave the
  flags of the loop as they were. A declared dependency all of whose records lie in such
  files has \<open>usedInProduction\<close> and \<open>usedInDev\<close> false, and is in the move list with the
  reason \<open>Only used in dev/test/config files\<close>, though no dev, test or config file uses it.
\<close>

theorem unclassified_records_ignored:
  assumes dep: "name \<in> set (dependencyNames config)"
    and grp: "grp = filter (\<lambda>imp. packageName imp = name) imps"
    and ne: "grp \<noteq> []"
    and un: "\<forall>imp \<in> set grp.
                \<not> isProduction (classifyFile path (filePath imp) config) \<and>
                \<not> isTest (classifyFile path (filePath imp) config) \<and>
                \<not> isBuild (classifyFile path (filePath imp) config) \<and>
                \<not> isConfig (classifyFile path (filePath imp) config)"
  shows "classifyImports path config st grp = st \<and>
         \<not> usedInProduction (analyzePackageUsage path name grp config) \<and>
         \<not> usedInDev (analyzePackageUsage path name grp config) \<and>
         canMoveToDevDependencies (analyzePackageUsage path name grp config) \<and>
         usageReason (analyzePackageUsage path name grp config) =
           ''Only used in dev/test/config files'' \<and>
         analyzePackageUsage path name grp config
           \<in> set (packagesToMove (analyzeDependencies path config imps))"
proof -
  let ?u = "analyzePackageUsage path name grp config"
  have same: "\<And>st. classifyImports path config st grp = st"
    using un by (rule classifyImports_unclassified)
  have d: "decideMove initialFlags = (True, ''Only used in dev/test/config files'')"
    by (simp add: decideMove_def initialFlags_def)
  have f: "\<not> usedInProduction ?u" "\<not> usedInDev ?u"
    using ne by (simp_all add: analyzePackageUsage_def Let_def same initialFlags_def split: prod.splits)
  have mv: "canMoveToDevDependencies ?u"
    using ne by (simp add: canMove_nonempty same d)
  have rs: "usageReason ?u = ''Only used in dev/test/config files''"
    using ne by (simp add: usageReason_nonempty same d)
  have "?u \<in> set (packagesToMove (analyzeDependencies path config imps))"
    using in_packagesToMove[OF dep, of path imps] mv unfolding grp by simp
  with same f mv rs show ?thesis by blast
qed

theorem unclassified_records_ignored_witness:
  "classifyFile (posix ''/'') ''/proj/scripts/run.ts'' srcProject =
     \<lparr> isProduction = False, isTest = False, isBuild = False, isConfig = False,
       reason = ''File classification: source=false, test=false, config=false'' \<rparr> \<and>
   \<not> usedInProduction (analyzePackageUsage (posix ''/'') ''lodash''
        [importAt ''lodash'' False ''/proj/scripts/run.ts''] srcProject) \<and>
   \<not> usedInDev (analyzePackageUsage (posix ''/'') ''lodash''
        [importAt ''lodash'' False ''/proj/scripts/run.ts''] srcProject) \<and>
   usageReason (analyzePackageUsage (posix ''/'') ''lodash''
        [importAt ''lodash'' False ''/proj/scripts/run.ts''] srcProject) =
     ''Only used in dev/test/config files'' \<and>
   analyzePackageUsage (posix ''/'') ''lodash''
        [importAt ''lodash'' False ''/proj/scripts/run.ts''] srcProject
     \<in> set (packagesToMove (analyzeDependencies (posix ''/'') srcProject
              [importAt ''lodash'' False ''/proj/scripts/run.ts'']))"
proof -
  let ?i = "importAt ''lodash'' False ''/proj/scripts/run.ts''"
  have c: "classifyFile (posix ''/'') ''/proj/scripts/run.ts'' srcProject =
     \<lparr> isProduction = False, isTest = False, isBuild = False, isConfig = False,
       reason = ''File classification: source=false, test=false, config=false'' \<rparr>"
    by code_simp
  have dep: "''lodash'' \<in> set (dependencyNames srcProject)"
    by code_simp
  have grp: "[?i] = filter (\<lambda>imp. packageName imp = ''lodash'') [?i]"
    by code_simp
  have ne: "[?i] \<noteq> []"
    by simp
  have un: "\<forall>imp \<in> set [?i].
                \<not> isProduction (classifyFile (posix ''/'') (filePath imp) srcProject) \<and>
                \<not> isTest (classifyFile (posix ''/'') (filePath imp) srcProject) \<and>
                \<not> isBuild (classifyFile (posix ''/'') (filePath imp) srcProject) \<and>
                \<not> isConfig (classifyFile (posix ''/'') (filePath imp) srcProject)"
    by code_simp
  from unclassified_records_ignored[OF dep grp ne un] c show ?thesis by blast
qed

section \<open>Properties of the import scanner\<close>

text \<open>
  C4, as amended. The record of a static import declaration is type-only exactly when the
  declaration is marked type-only, or it has at least one specifier and every specifier is
  marked type-only. A declaration that mixes a type specifier with a value specifier gives
  a runtime record.
\<close>

theorem import_declaration_type_only:
  assumes "visitImportDeclaration path file node = Some r"
  shows "isTypeOnly r \<longleftrightarrow>
           importKind node = Some ''type'' \<or> (hasSpecifiers node \<and> everySpecifierTypeOnly node)"
  using assms
  by (auto simp: visitImportDeclaration_def hasTypeOnlySpecifiers_def hasSpecifiers_def
        everySpecifierTypeOnly_def list_all_iff split: option.splits if_splits)

theorem import_declaration_type_only_witness:
  "visitImportDeclaration (posix ''/'') ''/proj/src/app.ts'' mixedImport =
     Some (importAt ''pkg'' False ''/proj/src/app.ts'') \<and>
   \<not> isTypeOnly (importAt ''pkg'' False ''/proj/src/app.ts'') \<and>
   hasSpecifiers mixedImport \<and> \<not> everySpecifierTypeOnly mixedImport"
proof -
  have h: "visitImportDeclaration (posix ''/'') ''/proj/src/app.ts'' mixedImport =
     Some (importAt ''pkg'' False ''/proj/src/app.ts'')"
    by code_simp
  have k: "importKind mixedImport \<noteq> Some ''type''" "hasSpecifiers mixedImport"
    "\<not> everySpecifierTypeOnly mixedImport"
    by code_simp+
  from import_declaration_type_only[OF h] h k show ?thesis by blast
qed

text \<open>
  C4 as stated fails on a declaration without specifiers: every specifier of
  \<open>import 'side-effect-pkg'\<close> is type-only, there being none, and the declaration is not
  marked type-only, yet its record is a runtime record.
\<close>

theorem side_effect_import_counterexample:
  "visitImportDeclaration (posix ''/'') ''/proj/src/app.ts'' sideEffectImport =
     Some (importAt ''side-effect-pkg'' False ''/proj/src/app.ts'') \<and>
   \<not> (isTypeOnly (importAt ''side-effect-pkg'' False ''/proj/src/app.ts'') \<longleftrightarrow>
        importKind sideEffectImport = Some ''type'' \<or> everySpecifierTypeOnly sideEffectImport)"
  by code_simp

text \<open>
  C7. \<open>extractPackageName\<close> computes the name as the specification words it, gives
  \<open>@scope/pkg\<close> for \<open>@scope/pkg/sub/path\<close> and for \<open>@scope/pkg\<close>, and \<open>pkg\<close> for
  \<open>pkg/sub\<close>, and is idempotent on every input.
\<close>

theorem extractPackageName_idempotent:
  "extractPackageName s = packageNameSpec s \<and>
   extractPackageName ''@scope/pkg/sub/path'' = ''@scope/pkg'' \<and>
   extractPackageName ''@scope/pkg'' = ''@scope/pkg'' \<and>
   extractPackageName ''pkg/sub'' = ''pkg'' \<and>
   extractPackageName (extractPackageName s) = extractPackageName s"
proof (intro conjI)
  show "extractPackageName s = packageNameSpec s"
    by (rule extractPackageName_spec)
  show "extractPackageName ''@scope/pkg/sub/path'' = ''@scope/pkg''"
    by code_simp
  show "extractPackageName ''@scope/pkg'' = ''@scope/pkg''"
    by code_simp
  show "extractPackageName ''pkg/sub'' = ''pkg''"
    by code_simp
  show "extractPackageName (extractPackageName s) = extractPackageName s"
    by (rule extractPackageName_idem)
qed

end
